theory Spec2Isabelle
  imports Complex_Main
begin

section \<open>The result cache (src/utils/db.js)\<close>

text \<open>
  The cache is one DuckDB table,
  \<^verbatim>\<open>results (id VARCHAR, date VARCHAR, elevation DOUBLE, qcode VARCHAR, color VARCHAR,
  PRIMARY KEY (id, date, elevation))\<close>.
  A row of it is a record; the table is the list of its rows in insertion order.
  JavaScript numbers are modelled as reals. The \<^verbatim>\<open>date\<close> column holds
  \<^verbatim>\<open>date.toISOString().split('T')[0]\<close>, the UTC calendar day of the instant; a
  \<^verbatim>\<open>Date\<close> is modelled by its millisecond count and the day string by the number of
  that day, which the string determines and is determined by. The queries are modelled by
  what they select and insert, not by their text: ids, codes and colours are taken to hold
  no quote character, and the elevation to be a number.
\<close>

record row =
  id_col :: string
  date_col :: int
  elevation_col :: real
  qcode_col :: string
  color_col :: string

text \<open>The objects \<^verbatim>\<open>{ id, qcode, color }\<close> that are cached and returned.\<close>

record result =
  res_id :: string
  res_qcode :: string
  res_color :: string

text \<open>
  The module state: \<^verbatim>\<open>conn\<close> is null until \<^verbatim>\<open>initDB\<close> has run; \<open>results\<close> is
  the table of the database instance (empty in a fresh instance).
\<close>

record database =
  conn :: bool
  results :: "row list"

definition toISODate :: "int \<Rightarrow> int" where
  "toISODate date = date div 86400000"

definition pk :: "row \<Rightarrow> string \<times> int \<times> real" where
  "pk r = (id_col r, date_col r, elevation_col r)"

text \<open>
  \<^verbatim>\<open>initDB\<close>: returns at once when the handle exists; otherwise connects and runs
  \<^verbatim>\<open>CREATE TABLE IF NOT EXISTS results\<close>, which leaves the rows of the instance as
  they are.
\<close>

definition initDB :: "database \<Rightarrow> database" where
  "initDB s = (if conn s then s else s\<lparr>conn := True\<rparr>)"

text \<open>
  \<^verbatim>\<open>SELECT * FROM results WHERE id IN (chunk) AND date = dateStr AND elevation = elevation\<close>
\<close>

definition select_results :: "row list \<Rightarrow> string list \<Rightarrow> int \<Rightarrow> real \<Rightarrow> row list" where
  "select_results t chunk dateStr elevation =
     filter (\<lambda>r. id_col r \<in> set chunk \<and> date_col r = dateStr \<and> elevation_col r = elevation) t"

definition row_result :: "row \<Rightarrow> result" where
  "row_result r = \<lparr>res_id = id_col r, res_qcode = qcode_col r, res_color = color_col r\<rparr>"

definition chunkSize :: nat where
  "chunkSize = 500"

text \<open>
  The loop of \<^verbatim>\<open>getCachedResults\<close>:
  \<^verbatim>\<open>for (let i = 0; i < ids.length; i += chunkSize)\<close> with
  \<^verbatim>\<open>chunk = ids.slice(i, i + chunkSize)\<close>, one query for each chunk, the mapped rows
  concatenated to \<^verbatim>\<open>allResults\<close>.
\<close>

function getCachedResults_loop ::
  "row list \<Rightarrow> string list \<Rightarrow> int \<Rightarrow> real \<Rightarrow> nat \<Rightarrow> result list \<Rightarrow> result list" where
  "getCachedResults_loop t ids dateStr elevation i allResults =
     (if i < length ids then
        getCachedResults_loop t ids dateStr elevation (i + chunkSize)
          (allResults @
             map row_result (select_results t (take chunkSize (drop i ids)) dateStr elevation))
      else allResults)"
  by pat_completeness auto
termination
  by (relation "measure (\<lambda>(t, ids, dateStr, elevation, i, allResults). length ids - i)")
     (auto simp: chunkSize_def)

declare getCachedResults_loop.simps [simp del]

definition getCachedResults ::
  "string list \<Rightarrow> int \<Rightarrow> real \<Rightarrow> database \<Rightarrow> result list \<times> database" where
  "getCachedResults ids date elevation s =
     (let s' = (if conn s then s else initDB s);
          dateStr = toISODate date
      in (getCachedResults_loop (results s') ids dateStr elevation 0 [], s'))"

text \<open>
  \<^verbatim>\<open>INSERT OR IGNORE INTO results VALUES v1, v2, ...\<close>: the rows are taken in order, and
  a row whose primary key is already in the table is skipped.
\<close>

fun insert_or_ignore :: "row list \<Rightarrow> row list \<Rightarrow> row list" where
  "insert_or_ignore t [] = t"
| "insert_or_ignore t (v # vs) =
     insert_or_ignore (if pk v \<in> set (map pk t) then t else t @ [v]) vs"

definition values_rows :: "result list \<Rightarrow> int \<Rightarrow> real \<Rightarrow> row list" where
  "values_rows rs dateStr elevation =
     map (\<lambda>res. \<lparr>id_col = res_id res, date_col = dateStr, elevation_col = elevation,
                 qcode_col = res_qcode res, color_col = res_color res\<rparr>) rs"

definition cacheResults :: "result list \<Rightarrow> int \<Rightarrow> real \<Rightarrow> database \<Rightarrow> database" where
  "cacheResults rs date elevation s =
     (let s' = (if conn s then s else initDB s);
          dateStr = toISODate date
      in if rs = [] then s'
         else s'\<lparr>results := insert_or_ignore (results s') (values_rows rs dateStr elevation)\<rparr>)"


section \<open>The visibility evaluator (calculate, in src/utils/moonNow.js)\<close>

subsection \<open>JavaScript values\<close>

text \<open>
  A JavaScript number is a real or \<^verbatim>\<open>NaN\<close> (rounding and the infinities are not
  modelled; the one division whose divisor can vanish is written out below). Arithmetic
  with \<^verbatim>\<open>NaN\<close>, or with \<^verbatim>\<open>undefined\<close>, gives \<^verbatim>\<open>NaN\<close>, and every comparison
  with \<^verbatim>\<open>NaN\<close> is false.
\<close>

datatype jsnum = Num real | NaN

instantiation jsnum :: "{plus, minus, times, inverse, ord}"
begin

fun plus_jsnum :: "jsnum \<Rightarrow> jsnum \<Rightarrow> jsnum" where
  "plus_jsnum (Num a) (Num b) = Num (a + b)"
| "plus_jsnum _ _ = NaN"

fun minus_jsnum :: "jsnum \<Rightarrow> jsnum \<Rightarrow> jsnum" where
  "minus_jsnum (Num a) (Num b) = Num (a - b)"
| "minus_jsnum _ _ = NaN"

fun times_jsnum :: "jsnum \<Rightarrow> jsnum \<Rightarrow> jsnum" where
  "times_jsnum (Num a) (Num b) = Num (a * b)"
| "times_jsnum _ _ = NaN"

text \<open>No divisor of a division modelled with \<open>/\<close> can be zero: they are constants.\<close>

fun divide_jsnum :: "jsnum \<Rightarrow> jsnum \<Rightarrow> jsnum" where
  "divide_jsnum (Num a) (Num b) = (if b = 0 then NaN else Num (a / b))"
| "divide_jsnum _ _ = NaN"

definition inverse_jsnum :: "jsnum \<Rightarrow> jsnum" where
  "inverse_jsnum x = divide (Num 1) x"

fun less_jsnum :: "jsnum \<Rightarrow> jsnum \<Rightarrow> bool" where
  "less_jsnum (Num a) (Num b) = (a < b)"
| "less_jsnum _ _ = False"

fun less_eq_jsnum :: "jsnum \<Rightarrow> jsnum \<Rightarrow> bool" where
  "less_eq_jsnum (Num a) (Num b) = (a \<le> b)"
| "less_eq_jsnum _ _ = False"

instance ..

end

fun Math_cos :: "jsnum \<Rightarrow> jsnum" where
  "Math_cos (Num x) = Num (cos x)"
| "Math_cos NaN = NaN"

fun Math_acos :: "jsnum \<Rightarrow> jsnum" where
  "Math_acos (Num x) = (if -1 \<le> x \<and> x \<le> 1 then Num (arccos x) else NaN)"
| "Math_acos NaN = NaN"

fun Math_pow :: "jsnum \<Rightarrow> nat \<Rightarrow> jsnum" where
  "Math_pow (Num x) n = Num (x ^ n)"
| "Math_pow NaN n = (if n = 0 then Num 1 else NaN)"

text \<open>
  The library's \<^verbatim>\<open>AstroTime\<close> carries the instant as \<^verbatim>\<open>ut\<close> (days since J2000) and
  as \<^verbatim>\<open>date\<close>, a JavaScript \<^verbatim>\<open>Date\<close>. Both are modelled by the instant; they differ in
  the properties they have: a \<^verbatim>\<open>Date\<close> has no property \<^verbatim>\<open>ut\<close>, so reading it gives
  \<^verbatim>\<open>undefined\<close>, which arithmetic turns into \<^verbatim>\<open>NaN\<close>.
\<close>

datatype time_val = AstroTime real | JSDate real

fun ut_of :: "time_val \<Rightarrow> jsnum" where
  "ut_of (AstroTime u) = Num u"
| "ut_of (JSDate u) = NaN"

fun date_of :: "time_val \<Rightarrow> time_val" where
  "date_of (AstroTime u) = JSDate u"
| "date_of (JSDate u) = JSDate u"

fun AddDays :: "time_val \<Rightarrow> real \<Rightarrow> time_val" where
  "AddDays (AstroTime u) days = AstroTime (u + days)"
| "AddDays (JSDate u) days = AstroTime (u + days)"

datatype jsval = Str string | Number jsnum | Time time_val

text \<open>The object \<^verbatim>\<open>details\<close>: a map from property names to values.\<close>

type_synonym details = "string \<rightharpoonup> jsval"

datatype error = InvalidTime | InvalidObserver | TypeError

subsection \<open>The ephemeris library\<close>

text \<open>
  \<^verbatim>\<open>astronomy-engine\<close> is not part of the repository; \<^verbatim>\<open>calculate\<close> is modelled over
  any library, given as a record of the functions it calls. A function of the library that
  can throw or return \<^verbatim>\<open>null\<close> returns an option; a search returns the \<^verbatim>\<open>ut\<close> of
  the \<^verbatim>\<open>AstroTime\<close> it found. Where the source reads one property of the returned
  object, the field gives that property. The argument \<^verbatim>\<open>null\<close> of \<^verbatim>\<open>Horizon\<close> (no
  refraction) is left out.
\<close>

datatype body = Sun | Moon

record observer =
  latitude :: real
  longitude :: real
  height :: real

record 'v equatorial =
  ra :: real
  dec :: real
  vec :: 'v

record horizontal =
  azimuth :: real
  altitude :: real
  hor_ra :: real
  hor_dec :: real

record ('d, 'v, 'r) astronomy =
  MakeTime :: "'d \<Rightarrow> real option"
  VerifyObserver :: "observer \<Rightarrow> bool"
  SearchRiseSet :: "body \<Rightarrow> observer \<Rightarrow> int \<Rightarrow> time_val \<Rightarrow> real \<Rightarrow> real option"
  SearchMoonPhase :: "real \<Rightarrow> time_val \<Rightarrow> real \<Rightarrow> real option"
  Equator :: "body \<Rightarrow> time_val \<Rightarrow> observer \<Rightarrow> bool \<Rightarrow> bool \<Rightarrow> 'v equatorial"
  Horizon :: "time_val \<Rightarrow> observer \<Rightarrow> real \<Rightarrow> real \<Rightarrow> horizontal"
  Libration_diam_deg :: "time_val \<Rightarrow> real"
  Elongation_elongation :: "body \<Rightarrow> time_val \<Rightarrow> real"
  AngleBetween_angle :: "'v \<Rightarrow> 'v \<Rightarrow> jsnum"
  GeoVector :: "body \<Rightarrow> time_val \<Rightarrow> bool \<Rightarrow> 'v"
  Rotation_EQJ_EQD :: "time_val \<Rightarrow> 'r"
  RotateVector :: "'r \<Rightarrow> 'v \<Rightarrow> 'v"
  EquatorFromVector :: "'v \<Rightarrow> 'v equatorial"

definition DEG2RAD :: real where
  "DEG2RAD = 0.017453292519943296"

definition RAD2DEG :: real where
  "RAD2DEG = 57.29577951308232"

record options =
  evening_opt :: "bool option"
  yallop_opt :: "bool option"

subsection \<open>calculate\<close>

text \<open>
  Lines 136 to 139 of \<^verbatim>\<open>calculate\<close>, the non-Yallop arc of vision:
  \<^verbatim>\<open>COSARCV = Math.cos(ARCL * DEG2RAD) / Math.cos(DAZ * DEG2RAD)\<close>, clamped to
  \<open>[-1, 1]\<close>, then \<^verbatim>\<open>Math.acos(COSARCV) * RAD2DEG\<close>. A zero divisor gives an infinity
  in JavaScript (clamped to \<open>\<plusminus>1\<close>; the divisor is taken as \<open>+0\<close>) or \<^verbatim>\<open>NaN\<close> for
  \<open>0 / 0\<close>.
\<close>

definition ARCV_from_ARCL_DAZ :: "jsnum \<Rightarrow> real \<Rightarrow> jsnum" where
  "ARCV_from_ARCL_DAZ ARCL DAZ =
     (let COSARCV =
        (case Math_cos (ARCL * Num DEG2RAD) of
           NaN \<Rightarrow> NaN
         | Num n \<Rightarrow>
             (let c = cos (DAZ * DEG2RAD) in
              if c = 0 then (if n = 0 then NaN else if n < 0 then Num (-1) else Num 1)
              else if n / c < -1 then Num (-1)
              else if n / c > 1 then Num 1
              else Num (n / c)))
      in Math_acos COSARCV * Num RAD2DEG)"

text \<open>
  Lines 143 to 159: the continuous value and the letter read from it. The result is the
  pair \<^verbatim>\<open>(value, result)\<close>.
\<close>

definition geometric :: "bool \<Rightarrow> jsnum \<Rightarrow> jsnum \<Rightarrow> jsnum \<times> string" where
  "geometric yallop ARCV WTopo =
     (if yallop then
        (let v = (ARCV - (Num 11.8371 - Num 6.3226 * WTopo + Num 0.7319 * Math_pow WTopo 2
                            - Num 0.1018 * Math_pow WTopo 3)) / Num 10
         in (v,
             if v > Num 0.216 then ''A''
             else if v > Num (-0.014) then ''B''
             else if v > Num (-0.16) then ''C''
             else if v > Num (-0.232) then ''D''
             else if v > Num (-0.293) then ''E''
             else ''F''))
      else
        (let v = ARCV - (Num 7.1651 - Num 6.3226 * WTopo + Num 0.7319 * Math_pow WTopo 2
                           - Num 0.1018 * Math_pow WTopo 3)
         in (v,
             if v \<ge> Num 5.65 then ''A''
             else if v \<ge> Num 2.0 then ''C''
             else if v \<ge> Num (-0.96) then ''E''
             else ''F'')))"


text \<open>
  Lines 82 to 180: the evaluation once both events are found; \<open>s\<close> and \<open>m\<close> are the
  \<^verbatim>\<open>ut\<close> of the two \<^verbatim>\<open>AstroTime\<close> objects the searches returned. The assignments
  to \<^verbatim>\<open>details\<close> are map updates in the order of the source.
\<close>

definition calculate_found ::
  "('d, 'v, 'r) astronomy \<Rightarrow> observer \<Rightarrow> bool \<Rightarrow> bool \<Rightarrow> real \<Rightarrow> real \<Rightarrow> details
     \<Rightarrow> error + details" where
  "calculate_found A observer evening yallop s m details =
     (let sunsetSunrise = AstroTime s;
          moonsetMoonrise = AstroTime m;
          lagTime = (m - s) * (if evening then 1 else -1);
          bestTime = (if lagTime < 0 then date_of sunsetSunrise
                      else AddDays sunsetSunrise
                             (((lagTime * 4) / 9) * (if evening then 1 else -1)));
          details = details(''lagTime'' \<mapsto> Number (Num lagTime));
          details = details(''moonsetMoonrise'' \<mapsto> Time (date_of moonsetMoonrise));
          details = details(''sunsetSunrise'' \<mapsto> Time (date_of sunsetSunrise))
      in case SearchMoonPhase A 0 (date_of sunsetSunrise) (-35) of
           None \<Rightarrow> Inl TypeError
         | Some prev \<Rightarrow>
      (case SearchMoonPhase A 0 (date_of sunsetSunrise) 35 of
           None \<Rightarrow> Inl TypeError
         | Some nxt \<Rightarrow>
      (let newMoonPrev = date_of (AstroTime prev);
           newMoonNext = date_of (AstroTime nxt);
           newMoonNearest =
             (if ut_of sunsetSunrise - ut_of newMoonPrev \<le> ut_of newMoonNext - ut_of sunsetSunrise
              then newMoonPrev else newMoonNext);
           details = details(''newMoonPrev'' \<mapsto> Time newMoonPrev);
           details = details(''newMoonNext'' \<mapsto> Time newMoonNext);
           details = details(''moonAgePrev'' \<mapsto> Number (ut_of bestTime - ut_of newMoonPrev));
           details = details(''moonAgeNext'' \<mapsto> Number (ut_of bestTime - ut_of newMoonNext));
           beforeNewMoon =
             ((ut_of sunsetSunrise - ut_of newMoonNearest) * Num (if evening then 1 else -1) < Num 0);
           details = (if lagTime < 0 \<and> beforeNewMoon
                      then details(''qcode'' \<mapsto> Str ''J'') else details);
           details = (if lagTime < 0 then details(''qcode'' \<mapsto> Str ''I'') else details);
           details = (if beforeNewMoon then details(''qcode'' \<mapsto> Str ''G'') else details);
           sunEquator = Equator A Sun bestTime observer True True;
           sunHorizon = Horizon A bestTime observer (ra sunEquator) (dec sunEquator);
           moonEquator = Equator A Moon bestTime observer True True;
           moonHorizon = Horizon A bestTime observer (ra moonEquator) (dec moonEquator);
           SD = (Libration_diam_deg A bestTime * 60) / 2;
           lunarParallax = SD / 0.27245;
           SDTopo = SD * (1 + sin (altitude moonHorizon * DEG2RAD)
                              * sin ((lunarParallax / 60) * DEG2RAD));
           ARCL = (if yallop then Num (Elongation_elongation A Moon bestTime)
                   else AngleBetween_angle A (vec sunEquator) (vec moonEquator));
           DAZ = azimuth sunHorizon - azimuth moonHorizon;
           ARCV =
             (if yallop then
                (let geoMoon = GeoVector A Moon bestTime True;
                     geoSun = GeoVector A Sun bestTime True;
                     rot = Rotation_EQJ_EQD A bestTime;
                     rotMoon = RotateVector A rot geoMoon;
                     rotSun = RotateVector A rot geoSun;
                     meq = EquatorFromVector A rotMoon;
                     seq = EquatorFromVector A rotSun;
                     mhor = Horizon A bestTime observer (ra meq) (dec meq);
                     shor = Horizon A bestTime observer (ra seq) (dec seq)
                 in Num (altitude mhor - altitude shor))
              else ARCV_from_ARCL_DAZ ARCL DAZ);
           WTopo = Num SDTopo * (Num 1 - Math_cos (ARCL * Num DEG2RAD));
           value_result = geometric yallop ARCV WTopo;
           details = details(''qcode'' \<mapsto> Str (snd value_result));
           details = details(''bestTime'' \<mapsto> Time bestTime);
           details = details(''sd'' \<mapsto> Number (Num SD));
           details = details(''lunarParallax'' \<mapsto> Number (Num lunarParallax));
           details = details(''arcl'' \<mapsto> Number ARCL);
           details = details(''arcv'' \<mapsto> Number ARCV);
           details = details(''daz'' \<mapsto> Number (Num DAZ));
           details = details(''wTopo'' \<mapsto> Number WTopo);
           details = details(''sdTopo'' \<mapsto> Number (Num SDTopo));
           details = details(''value'' \<mapsto> Number (fst value_result));
           details = details(''moonAzimuth'' \<mapsto> Number (Num (azimuth moonHorizon)));
           details = details(''moonAltitude'' \<mapsto> Number (Num (altitude moonHorizon)));
           details = details(''moonRa'' \<mapsto> Number (Num (hor_ra moonHorizon)));
           details = details(''moonDec'' \<mapsto> Number (Num (hor_dec moonHorizon)));
           details = details(''sunAzimuth'' \<mapsto> Number (Num (azimuth sunHorizon)));
           details = details(''sunAltitude'' \<mapsto> Number (Num (altitude sunHorizon)));
           details = details(''sunRa'' \<mapsto> Number (Num (hor_ra sunHorizon)));
           details = details(''sunDec'' \<mapsto> Number (Num (hor_dec sunHorizon)))
       in Inr details)))"

text \<open>
  Lines 65 to 75: the defaults of the options and of the altitude, the time and the
  observer (either constructor can throw), and the two searches over one day. The result
  is the observer, the two options, and what the searches for the Sun and for the Moon
  returned (\<open>None\<close> for \<^verbatim>\<open>null\<close>).
\<close>

definition searches ::
  "('d, 'v, 'r) astronomy \<Rightarrow> real \<Rightarrow> real \<Rightarrow> real option \<Rightarrow> 'd \<Rightarrow> options
     \<Rightarrow> error + (observer \<times> bool \<times> bool \<times> real option \<times> real option)" where
  "searches A lat lng alt baseTime opts =
     (let evening = (case evening_opt opts of None \<Rightarrow> True | Some b \<Rightarrow> b);
          yallop = (case yallop_opt opts of None \<Rightarrow> True | Some b \<Rightarrow> b);
          alt = (case alt of None \<Rightarrow> 0 | Some a \<Rightarrow> a)
      in case MakeTime A baseTime of
           None \<Rightarrow> Inl InvalidTime
         | Some base \<Rightarrow>
      (let observer = \<lparr>latitude = lat, longitude = lng, height = alt\<rparr>
       in if \<not> VerifyObserver A observer then Inl InvalidObserver
          else
            (let time = AddDays (AstroTime base) (- longitude observer / 360);
                 direction = (if evening then -1 else 1);
                 sunsetSunrise = SearchRiseSet A Sun observer direction time 1;
                 moonsetMoonrise = SearchRiseSet A Moon observer direction time 1
             in Inr (observer, evening, yallop, sunsetSunrise, moonsetMoonrise))))"

text \<open>
  \<^verbatim>\<open>calculate\<close>: after the searches, lines 77 to 80 return \<^verbatim>\<open>{ qcode: "H" }\<close> when
  either search returned \<^verbatim>\<open>null\<close>; otherwise the evaluation goes on with the two
  events. \<open>Inl\<close> is an exception thrown out of \<^verbatim>\<open>calculate\<close>.
\<close>

definition calculate ::
  "('d, 'v, 'r) astronomy \<Rightarrow> real \<Rightarrow> real \<Rightarrow> real option \<Rightarrow> 'd \<Rightarrow> options
     \<Rightarrow> error + details" where
  "calculate A lat lng alt baseTime opts =
     (let details = Map.empty
      in case searches A lat lng alt baseTime opts of
           Inl err \<Rightarrow> Inl err
         | Inr (observer, evening, yallop, sunsetSunrise, moonsetMoonrise) \<Rightarrow>
             (case sunsetSunrise of
                None \<Rightarrow> Inr (details(''qcode'' \<mapsto> Str ''H''))
              | Some s \<Rightarrow>
                  (case moonsetMoonrise of
                     None \<Rightarrow> Inr (details(''qcode'' \<mapsto> Str ''H''))
                   | Some m \<Rightarrow> calculate_found A observer evening yallop s m details)))"


section \<open>The batch worker (src/utils/worker.js)\<close>








section \<open>Antimeridian-safe cell polygons (getAntimeridianSafeFeature, in src/unnamed/part_001)\<close>

text \<open>
  A position is the array \<^verbatim>\<open>[lng, lat]\<close>; \<^verbatim>\<open>coords.push(coords[0])\<close> on an empty
  array pushes \<^verbatim>\<open>undefined\<close>.
\<close>

datatype position = Position real real | Undefined

datatype geometry = Polygon "position list list" | MultiPolygon "position list list list"

record feature =
  properties_color :: string
  geometry :: geometry

text \<open>
  The loop over the longitudes: each one is compared with the next, the last with the
  first; the loop stops at the first pair more than 180 degrees apart.
\<close>

function crosses_loop :: "real list \<Rightarrow> nat \<Rightarrow> bool" where
  "crosses_loop lngs i =
     (if i < length lngs then
        (let next = lngs ! ((i + 1) mod length lngs)
         in if \<bar>lngs ! i - next\<bar> > 180 then True else crosses_loop lngs (i + 1))
      else False)"
  by pat_completeness auto
termination
  by (relation "measure (\<lambda>(lngs, i). length lngs - i)") auto

declare crosses_loop.simps [simp del]

definition push_first :: "position list \<Rightarrow> position list" where
  "push_first coords = coords @ [case coords of [] \<Rightarrow> Undefined | c # _ \<Rightarrow> c]"

text \<open>
  \<^verbatim>\<open>h3.cellToBoundary\<close> belongs to the grid library and is a parameter; it returns the
  boundary as pairs \<^verbatim>\<open>[lat, lng]\<close>.
\<close>

definition getAntimeridianSafeFeature ::
  "(string \<Rightarrow> (real \<times> real) list) \<Rightarrow> string \<Rightarrow> string \<Rightarrow> feature" where
  "getAntimeridianSafeFeature cellToBoundary h3Id color =
     (let boundary = cellToBoundary h3Id;
          lngs = map (\<lambda>b. snd b) boundary;
          crosses = crosses_loop lngs 0
      in if \<not> crosses then
           (let coords = map (\<lambda>b. Position (snd b) (fst b)) boundary
            in \<lparr>properties_color = color, geometry = Polygon [push_first coords]\<rparr>)
         else
           (let leftCoords =
                  map (\<lambda>b. Position (if snd b < 0 then snd b + 360 else snd b) (fst b)) boundary;
                rightCoords =
                  map (\<lambda>b. Position (if snd b > 0 then snd b - 360 else snd b) (fst b)) boundary
            in \<lparr>properties_color = color,
                geometry = MultiPolygon [[push_first leftCoords], [push_first rightCoords]]\<rparr>))"


section \<open>The specification's ladders and measures\<close>

text \<open>
  The two ladders as the specification words them, to be compared with what
  \<^verbatim>\<open>calculate\<close> returns.
\<close>

definition spec_yallop_ladder :: "jsnum \<Rightarrow> string" where
  "spec_yallop_ladder v =
     (if v > Num 0.216 then ''A''
      else if v > Num (-0.014) then ''B''
      else if v > Num (-0.16) then ''C''
      else if v > Num (-0.232) then ''D''
      else if v > Num (-0.293) then ''E''
      else ''F'')"

definition spec_alternate_ladder :: "jsnum \<Rightarrow> string" where
  "spec_alternate_ladder v =
     (if v \<ge> Num 5.65 then ''A''
      else if v \<ge> Num 2.0 then ''C''
      else if v \<ge> Num (-0.96) then ''E''
      else ''F'')"

text \<open>The code a call of \<^verbatim>\<open>calculate\<close> returns, if it returns, and its lag time.\<close>

definition returned_qcode :: "error + details \<Rightarrow> jsval option" where
  "returned_qcode r = (case r of Inl err \<Rightarrow> None | Inr d \<Rightarrow> d ''qcode'')"

definition returned_lagTime :: "error + details \<Rightarrow> jsval option" where
  "returned_lagTime r = (case r of Inl err \<Rightarrow> None | Inr d \<Rightarrow> d ''lagTime'')"

text \<open>
  The polygon construction as the specification words it: a wrap is detected when two
  consecutive boundary longitudes (the last and the first are consecutive) differ by more
  than 180 degrees; a ring is closed by repeating its first vertex; the single polygon is
  the boundary in (lng, lat) order; the left copy shifts the negative longitudes by +360
  and the right copy the positive ones by -360.
\<close>

definition wrap_detected :: "real list \<Rightarrow> bool" where
  "wrap_detected lngs =
     list_ex (\<lambda>j. \<bar>lngs ! j - lngs ! ((j + 1) mod length lngs)\<bar> > 180) [0..<length lngs]"

definition closed_ring :: "position list \<Rightarrow> position list" where
  "closed_ring ps = (case ps of [] \<Rightarrow> [] | p # _ \<Rightarrow> ps @ [p])"

definition spec_single :: "(real \<times> real) list \<Rightarrow> position list" where
  "spec_single boundary = closed_ring (map (\<lambda>(lat, lng). Position lng lat) boundary)"

definition spec_left :: "(real \<times> real) list \<Rightarrow> position list" where
  "spec_left boundary =
     closed_ring (map (\<lambda>(lat, lng). Position (if lng < 0 then lng + 360 else lng) lat) boundary)"

definition spec_right :: "(real \<times> real) list \<Rightarrow> position list" where
  "spec_right boundary =
     closed_ring (map (\<lambda>(lat, lng). Position (if lng > 0 then lng - 360 else lng) lat) boundary)"

text \<open>The longitudes of a ring, and whether no two longitudes are more than \<open>d\<close> apart.\<close>

fun ring_lngs :: "position list \<Rightarrow> real list" where
  "ring_lngs [] = []"
| "ring_lngs (Position x y # ps) = x # ring_lngs ps"
| "ring_lngs (Undefined # ps) = ring_lngs ps"

definition spans_at_most :: "real \<Rightarrow> real list \<Rightarrow> bool" where
  "spans_at_most d xs = list_all (\<lambda>x. list_all (\<lambda>y. \<bar>x - y\<bar> \<le> d) xs) xs"


section \<open>Sample inputs\<close>

text \<open>A fresh database, one that holds a row, and two results for one cell.\<close>

definition fresh_db :: database where
  "fresh_db = \<lparr>conn = False, results = []\<rparr>"

definition row_C :: row where
  "row_C = \<lparr>id_col = ''81003ffffffffff'', date_col = 20501, elevation_col = 100,
            qcode_col = ''C'', color_col = ''#2dd4bf''\<rparr>"

definition db_C :: database where
  "db_C = \<lparr>conn = True, results = [row_C]\<rparr>"

definition res_A :: result where
  "res_A = \<lparr>res_id = ''81007ffffffffff'', res_qcode = ''A'', res_color = ''#22c55e''\<rparr>"

definition res_B :: result where
  "res_B = \<lparr>res_id = ''81007ffffffffff'', res_qcode = ''F'', res_color = ''rgba(0, 0, 0, 0)''\<rparr>"

text \<open>
  A sample ephemeris: rounded answers of the library around the new moon of 8 April 2024
  (\<open>ut = 8864.2646\<close>). At latitudes below 80 degrees the evening of 6 April
  (\<open>ut\<close> before 8864) has the Moon set before the Sun, two days before the new moon; the
  evening of 9 April has it set after the Sun, except below 55 degrees south, where it
  sets a quarter of an hour before the Sun, a day after the new moon. Above 80 degrees
  north the Moon does not set within the day. The base time is a \<^verbatim>\<open>Date\<close>, given by
  its instant in days since J2000 (\<^verbatim>\<open>NaN\<close> for an invalid date, which
  \<^verbatim>\<open>MakeTime\<close> rejects); the observer's constructor rejects a latitude outside
  \<open>[-90, 90]\<close>; \<^verbatim>\<open>AngleBetween\<close> returns a bare number, whose property
  \<^verbatim>\<open>angle\<close> is undefined.
\<close>

fun instant :: "time_val \<Rightarrow> real" where
  "instant (AstroTime u) = u"
| "instant (JSDate u) = u"

definition sample_ephemeris :: "(jsnum, body, unit) astronomy" where
  "sample_ephemeris =
     \<lparr>MakeTime = (\<lambda>d. case d of Num u \<Rightarrow> Some u | NaN \<Rightarrow> None),
      VerifyObserver = (\<lambda>obs. -90 \<le> latitude obs \<and> latitude obs \<le> 90),
      SearchRiseSet = (\<lambda>b obs direction t limitDays.
         if 80 < latitude obs then (case b of Sun \<Rightarrow> Some (instant t + 0.75) | Moon \<Rightarrow> None)
         else if latitude obs < -55
         then (case b of Sun \<Rightarrow> Some 8865.215 | Moon \<Rightarrow> Some 8865.205)
         else if instant t < 8864 then (case b of Sun \<Rightarrow> Some 8862.25 | Moon \<Rightarrow> Some 8862.15)
         else (case b of Sun \<Rightarrow> Some 8865.25 | Moon \<Rightarrow> Some 8865.285)),
      SearchMoonPhase = (\<lambda>targetLon t limitDays.
         if limitDays < 0
         then (if instant t < 8864.2646 then Some 8834.875 else Some 8864.2646)
         else (if instant t < 8864.2646 then Some 8864.2646 else Some 8893.64)),
      Equator = (\<lambda>b t obs ofdate aberration.
         \<lparr>ra = (case b of Sun \<Rightarrow> 1.1 | Moon \<Rightarrow> 1.9),
          dec = (case b of Sun \<Rightarrow> 7 | Moon \<Rightarrow> 12), vec = b\<rparr>),
      Horizon = (\<lambda>t obs r d.
         if r = 1.9
         then \<lparr>azimuth = 285,
               altitude = (if instant t < 8864 then -35.2
                           else if latitude obs < -55 then -2.9 else 8.5),
               hor_ra = r, hor_dec = d\<rparr>
         else \<lparr>azimuth = 277,
               altitude = (if instant t < 8864 \<or> latitude obs < -55 then -0.8 else -4),
               hor_ra = r, hor_dec = d\<rparr>),
      Libration_diam_deg = (\<lambda>t. 0.52),
      Elongation_elongation = (\<lambda>b t. if instant t < 8864 then 25 else 13),
      AngleBetween_angle = (\<lambda>a b. NaN),
      GeoVector = (\<lambda>b t aberration. b),
      Rotation_EQJ_EQD = (\<lambda>t. ()),
      RotateVector = (\<lambda>rot v. v),
      EquatorFromVector = (\<lambda>v.
         \<lparr>ra = (case v of Sun \<Rightarrow> 1.1 | Moon \<Rightarrow> 1.9),
          dec = (case v of Sun \<Rightarrow> 7 | Moon \<Rightarrow> 12), vec = v\<rparr>)\<rparr>"

definition yallop_options :: options where
  "yallop_options = \<lparr>evening_opt = None, yallop_opt = Some True\<rparr>"



text \<open>
  Sample boundaries (pairs \<^verbatim>\<open>[lat, lng]\<close>): a cell around the north pole, a cell across
  the antimeridian, and a cell away from both.
\<close>

definition sample_boundary :: "string \<Rightarrow> (real \<times> real) list" where
  "sample_boundary h3Id =
     (if h3Id = ''pole'' then
        [(89, -150), (89, -90), (89, -30), (89, 30), (89, 90), (89, 150)]
      else if h3Id = ''antimeridian'' then
        [(1, 179), (2, -179.5), (1, -178), (-1, -178), (-2, -179.5), (-1, 179)]
      else
        [(1, 10), (2, 15), (1, 20), (-1, 20), (-2, 15), (-1, 10)])"


section \<open>Properties of the result cache\<close>

subsection \<open>Lists\<close>

lemma find_append_case:
  "find P (xs @ ys) = (case find P xs of None \<Rightarrow> find P ys | Some x \<Rightarrow> Some x)"
  by (induction xs) auto

lemma find_map_comp: "find P (map f xs) = map_option f (find (\<lambda>x. P (f x)) xs)"
  by (induction xs) auto

subsection \<open>The state and the table\<close>

lemma results_initDB: "results (initDB s) = results s"
  by (simp add: initDB_def)

lemma results_cacheResults:
  "results (cacheResults rs dt elevation s) =
     insert_or_ignore (results s) (values_rows rs (toISODate dt) elevation)"
  by (simp add: cacheResults_def Let_def results_initDB values_rows_def)

lemma fst_getCachedResults:
  "fst (getCachedResults ids dt elevation s) =
     getCachedResults_loop (results s) ids (toISODate dt) elevation 0 []"
  by (simp add: getCachedResults_def Let_def results_initDB)

subsection \<open>The query and the chunk loop\<close>

lemma find_select_results:
  "find (\<lambda>r. id_col r = i) (select_results t chunk d e) =
     (if i \<in> set chunk then find (\<lambda>r. pk r = (i, d, e)) t else None)"
  by (induction t) (auto simp: select_results_def pk_def)

lemma set_drop_chunk:
  "set (drop i ids) = set (take chunkSize (drop i ids)) \<union> set (drop (i + chunkSize) ids)"
  by (metis add.commute append_take_drop_id drop_drop set_append)

lemma set_loop:
  "set (getCachedResults_loop t ids d e i acc) =
     set acc \<union> row_result ` {r \<in> set t. id_col r \<in> set (drop i ids) \<and> date_col r = d
                                \<and> elevation_col r = e}"
proof (induction t ids d e i acc rule: getCachedResults_loop.induct)
  case (1 t ids d e i acc)
  show ?case
  proof (cases "i < length ids")
    case True
    show ?thesis
      using True "1.IH" [OF True]
      by (subst getCachedResults_loop.simps)
         (auto simp: set_drop_chunk [of i ids] select_results_def)
  next
    case False
    then show ?thesis
      by (subst getCachedResults_loop.simps) simp
  qed
qed

lemma find_loop:
  "find (\<lambda>x. res_id x = i') (getCachedResults_loop t ids d e i acc) =
     (case find (\<lambda>x. res_id x = i') acc of
        Some x \<Rightarrow> Some x
      | None \<Rightarrow> (if i' \<in> set (drop i ids)
                 then map_option row_result (find (\<lambda>r. pk r = (i', d, e)) t) else None))"
proof (induction t ids d e i acc rule: getCachedResults_loop.induct)
  case (1 t ids d e i acc)
  show ?case
  proof (cases "i < length ids")
    case True
    have res: "(\<lambda>x. res_id (row_result x) = i') = (\<lambda>r. id_col r = i')"
      by (simp add: row_result_def)
    show ?thesis
      using True "1.IH" [OF True]
      by (subst getCachedResults_loop.simps)
         (auto simp: set_drop_chunk [of i ids] find_append_case find_map_comp res
               find_select_results split: option.splits)
  next
    case False
    then show ?thesis
      by (subst getCachedResults_loop.simps) (simp split: option.splits)
  qed
qed

lemma loop_cong:
  "(\<And>c. select_results t c d e = select_results t' c d e) \<Longrightarrow>
   getCachedResults_loop t ids d e i acc = getCachedResults_loop t' ids d e i acc"
proof (induction t ids d e i acc rule: getCachedResults_loop.induct)
  case (1 t ids d e i acc)
  show ?case
  proof (cases "i < length ids")
    case True
    then show ?thesis
      using "1.IH" [OF True "1.prems"] "1.prems"
      by (subst getCachedResults_loop.simps, subst (2) getCachedResults_loop.simps) simp
  next
    case False
    then show ?thesis
      by (subst getCachedResults_loop.simps, subst (2) getCachedResults_loop.simps) simp
  qed
qed

lemma loop_single:
  "getCachedResults_loop t [i] d e 0 [] = map row_result (select_results t [i] d e)"
  by (subst getCachedResults_loop.simps, subst getCachedResults_loop.simps)
     (simp add: chunkSize_def)

subsection \<open>The insert\<close>

lemma find_insert_or_ignore:
  "find (\<lambda>r. pk r = k) (insert_or_ignore t vs) =
     (case find (\<lambda>r. pk r = k) t of Some r \<Rightarrow> Some r | None \<Rightarrow> find (\<lambda>r. pk r = k) vs)"
proof (induction vs arbitrary: t)
  case Nil
  then show ?case by (simp split: option.splits)
next
  case (Cons v vs)
  have none_iff: "(find (\<lambda>r. pk r = k) t = None) = (k \<notin> set (map pk t))"
    by (auto simp: find_None_iff)
  show ?case
    using none_iff
    by (auto simp: Cons.IH find_append_case split: option.splits)
qed

lemma find_values_rows:
  "find (\<lambda>r. pk r = (i, d, e)) (values_rows rs d e) =
     map_option (\<lambda>res. \<lparr>id_col = res_id res, date_col = d, elevation_col = e,
                 qcode_col = res_qcode res, color_col = res_color res\<rparr>)
       (find (\<lambda>x. res_id x = i) rs)"
  by (induction rs) (auto simp: values_rows_def pk_def)

lemma filter_insert_or_ignore_other:
  "\<forall>v \<in> set vs. \<not> P v \<Longrightarrow> filter P (insert_or_ignore t vs) = filter P t"
  by (induction vs arbitrary: t) auto

lemma find_lookup_after_insert:
  "find (\<lambda>x. res_id x = i)
        (fst (getCachedResults ids dt elevation (cacheResults rs dt elevation s))) =
      (if i \<in> set ids then
         (case find (\<lambda>r. pk r = (i, toISODate dt, elevation)) (results s) of
            Some r \<Rightarrow> Some (row_result r)
          | None \<Rightarrow> find (\<lambda>x. res_id x = i) rs)
       else None)"
proof -
  let ?D = "toISODate dt"
  let ?t = "insert_or_ignore (results s) (values_rows rs ?D elevation)"
  have again: "map_option row_result
                 (find (\<lambda>r. pk r = (i, ?D, elevation)) (values_rows rs ?D elevation))
       = find (\<lambda>x. res_id x = i) rs"
    by (cases "find (\<lambda>x. res_id x = i) rs") (simp_all add: find_values_rows row_result_def)
  have "find (\<lambda>x. res_id x = i) (getCachedResults_loop ?t ids ?D elevation 0 []) =
        (if i \<in> set ids
         then map_option row_result (find (\<lambda>r. pk r = (i, ?D, elevation)) ?t) else None)"
    by (simp add: find_loop)
  also have "map_option row_result (find (\<lambda>r. pk r = (i, ?D, elevation)) ?t) =
     (case find (\<lambda>r. pk r = (i, ?D, elevation)) (results s) of
            Some r \<Rightarrow> Some (row_result r)
          | None \<Rightarrow> find (\<lambda>x. res_id x = i) rs)"
    by (cases "find (\<lambda>r. pk r = (i, ?D, elevation)) (results s)")
       (simp_all add: find_insert_or_ignore again)
  finally show ?thesis
    by (simp only: fst_getCachedResults results_cacheResults)
qed

subsection \<open>The primary key\<close>

text \<open>The keys of the table stay distinct through every insert, and then so do the ids a
  lookup of distinct ids returns.\<close>

lemma distinct_insert_or_ignore:
  "distinct (map pk t) \<Longrightarrow> distinct (map pk (insert_or_ignore t vs))"
  by (induction vs arbitrary: t) auto

lemma distinct_cacheResults:
  "distinct (map pk (results s)) \<Longrightarrow> distinct (map pk (results (cacheResults rs dt elevation s)))"
  by (simp add: results_cacheResults distinct_insert_or_ignore)

lemma distinct_select_results:
  "distinct (map pk t) \<Longrightarrow> distinct (map id_col (select_results t chunk d e))"
proof (induction t)
  case Nil
  then show ?case by (simp add: select_results_def)
next
  case (Cons r t)
  have "id_col r \<notin> id_col ` set (select_results t chunk d e)"
    if "date_col r = d" "elevation_col r = e"
  proof
    assume "id_col r \<in> id_col ` set (select_results t chunk d e)"
    then obtain r' where "r' \<in> set t" "id_col r' = id_col r" "date_col r' = d"
      "elevation_col r' = e"
      by (auto simp: select_results_def)
    then have "pk r' = pk r"
      using that by (simp add: pk_def)
    then have "pk r \<in> pk ` set t"
      using \<open>r' \<in> set t\<close> by (metis imageI)
    then show False
      using Cons.prems by simp
  qed
  then show ?case
    using Cons by (auto simp: select_results_def)
qed

lemma res_id_row_result: "map res_id (map row_result rows) = map id_col rows"
  by (simp add: row_result_def)

lemma ids_select_results: "id_col ` set (select_results t chunk d e) \<subseteq> set chunk"
  by (auto simp: select_results_def)

lemma distinct_loop:
  assumes "distinct ids" and "distinct (map pk t)"
      and "distinct (map res_id acc)" and "res_id ` set acc \<subseteq> set (take i ids)"
  shows "distinct (map res_id (getCachedResults_loop t ids d e i acc))"
  using assms
proof (induction t ids d e i acc rule: getCachedResults_loop.induct)
  case (1 t ids d e i acc)
  show ?case
  proof (cases "i < length ids")
    case False
    then show ?thesis
      using "1.prems" by (subst getCachedResults_loop.simps) simp
  next
    case True
    let ?chunk = "take chunkSize (drop i ids)"
    let ?new = "map row_result (select_results t ?chunk d e)"
    have ids_split: "take (i + chunkSize) ids = take i ids @ ?chunk"
      by (simp add: take_add)
    have disj: "set (take i ids) \<inter> set ?chunk = {}"
      using "1.prems"(1) ids_split
      by (metis distinct_append distinct_take)
    have new_ids: "res_id ` set ?new \<subseteq> set ?chunk"
      using ids_select_results [of t ?chunk d e] by (auto simp: row_result_def)
    have new_distinct: "distinct (map res_id ?new)"
      using distinct_select_results [OF "1.prems"(2), of ?chunk d e]
      by (simp only: res_id_row_result)
    have "res_id ` set acc \<inter> res_id ` set ?new = {}"
      using "1.prems"(4) new_ids disj by blast
    then have d1: "distinct (map res_id (acc @ ?new))"
      using "1.prems"(3) new_distinct by (simp only: map_append distinct_append set_map)
    have d2: "res_id ` set (acc @ ?new) \<subseteq> set (take (i + chunkSize) ids)"
      using "1.prems"(4) new_ids by (simp only: ids_split set_append image_Un) blast
    show ?thesis
      using "1.IH" [OF True "1.prems"(1,2) d1 d2] True
      by (subst getCachedResults_loop.simps) simp
  qed
qed

lemma distinct_getCachedResults:
  "distinct ids \<Longrightarrow> distinct (map pk (results s)) \<Longrightarrow>
   distinct (map res_id (fst (getCachedResults ids dt elevation s)))"
  by (simp add: fst_getCachedResults distinct_loop)

subsection \<open>The claims about the cache\<close>

text \<open>
  Claim C4. An insert never overwrites: a key that has a row keeps that row through any
  later insert; inserting \<open>b\<close> after \<open>a\<close> for the same cell, date and elevation leaves the
  whole state as it was after \<open>a\<close>; and when the key was not in the table before, the
  lookup of the cell after both inserts returns \<open>a\<close> alone.
\<close>

theorem cacheResults_first_writer_wins:
  "(find (\<lambda>r. pk r = k) (results s) = Some r \<longrightarrow>
      find (\<lambda>r. pk r = k) (results (cacheResults rs dt elevation s)) = Some r)
   \<and> (res_id b = res_id a \<longrightarrow>
      cacheResults [b] dt elevation (cacheResults [a] dt elevation s) =
        cacheResults [a] dt elevation s)
   \<and> (res_id b = res_id a \<and>
      find (\<lambda>r. pk r = (res_id a, toISODate dt, elevation)) (results s) = None \<longrightarrow>
      fst (getCachedResults [res_id a] dt elevation
            (cacheResults [b] dt elevation (cacheResults [a] dt elevation s))) = [a])"
proof (intro conjI impI)
  assume "find (\<lambda>r. pk r = k) (results s) = Some r"
  then show "find (\<lambda>r. pk r = k) (results (cacheResults rs dt elevation s)) = Some r"
    by (simp add: results_cacheResults find_insert_or_ignore)
next
  assume same: "res_id b = res_id a"
  let ?s1 = "cacheResults [a] dt elevation s"
  have "pk \<lparr>id_col = res_id a, date_col = toISODate dt, elevation_col = elevation,
            qcode_col = res_qcode a, color_col = res_color a\<rparr> \<in> set (map pk (results ?s1))"
    by (simp add: results_cacheResults values_rows_def)
  then have keep:
    "insert_or_ignore (results ?s1) (values_rows [b] (toISODate dt) elevation) = results ?s1"
    using same by (simp add: values_rows_def pk_def)
  have "conn ?s1"
    by (simp add: cacheResults_def Let_def initDB_def)
  then show "cacheResults [b] dt elevation ?s1 = ?s1"
    using keep by (simp add: cacheResults_def [of "[b]"] Let_def)
next
  assume h: "res_id b = res_id a \<and>
      find (\<lambda>r. pk r = (res_id a, toISODate dt, elevation)) (results s) = None"
  let ?s1 = "cacheResults [a] dt elevation s"
  let ?k = "(res_id a, toISODate dt, elevation)"
  have same: "res_id b = res_id a" and fresh: "find (\<lambda>r. pk r = ?k) (results s) = None"
    using h by simp_all
  have nokey: "\<forall>r \<in> set (results s). pk r \<noteq> ?k"
    using fresh by (simp add: find_None_iff)
  have "pk \<lparr>id_col = res_id a, date_col = toISODate dt, elevation_col = elevation,
            qcode_col = res_qcode a, color_col = res_color a\<rparr> \<in> set (map pk (results ?s1))"
    by (simp add: results_cacheResults values_rows_def)
  then have keep: "results (cacheResults [b] dt elevation ?s1) = results ?s1"
    using same by (simp add: results_cacheResults [of "[b]"] values_rows_def pk_def)
  have tbl: "results ?s1 = results s @ [\<lparr>id_col = res_id a, date_col = toISODate dt,
            elevation_col = elevation, qcode_col = res_qcode a, color_col = res_color a\<rparr>]"
    using nokey by (auto simp: results_cacheResults values_rows_def pk_def)
  have sel: "select_results (results s) [res_id a] (toISODate dt) elevation = []"
    using nokey by (auto simp: select_results_def pk_def filter_empty_conv)
  show "fst (getCachedResults [res_id a] dt elevation
            (cacheResults [b] dt elevation ?s1)) = [a]"
    using sel
    by (simp add: fst_getCachedResults keep tbl loop_single select_results_def row_result_def)
qed

theorem cacheResults_first_writer_wins_witness:
  "find (\<lambda>r. pk r = pk row_C) (results db_C) = Some row_C
   \<and> res_id res_B = res_id res_A
   \<and> find (\<lambda>r. pk r = (res_id res_A, toISODate 1771286400000, 100)) (results db_C) = None
   \<and> find (\<lambda>r. pk r = pk row_C)
        (results (cacheResults [res_A, res_B] 1771286400000 100 db_C)) = Some row_C
   \<and> cacheResults [res_B] 1771286400000 100 (cacheResults [res_A] 1771286400000 100 db_C)
       = cacheResults [res_A] 1771286400000 100 db_C
   \<and> fst (getCachedResults [res_id res_A] 1771286400000 100
        (cacheResults [res_B] 1771286400000 100
           (cacheResults [res_A] 1771286400000 100 db_C))) = [res_A]"
proof -
  have h1: "find (\<lambda>r. pk r = pk row_C) (results db_C) = Some row_C"
    by (simp add: db_C_def)
  have h2: "res_id res_B = res_id res_A"
    by (simp add: res_A_def res_B_def)
  have h3: "find (\<lambda>r. pk r = (res_id res_A, toISODate 1771286400000, 100)) (results db_C)
              = None"
    by (simp add: db_C_def row_C_def res_A_def pk_def)
  show ?thesis
    using h1 h2 h3
      cacheResults_first_writer_wins
        [of "pk row_C" db_C row_C "[res_A, res_B]" 1771286400000 100 res_B res_A]
    by blast
qed

text \<open>
  Claim C5. The rows a lookup returns are exactly the rows of the table whose id is among
  the requested ids and whose date and elevation are the requested ones, whatever the
  number of chunks. Read as a mapping from cell ids, the lookup after an insert gives,
  for a requested id, the row the table already had for the key, else the result just
  inserted for it, else nothing; an id that was not requested is absent. When the
  requested ids are distinct, on a table with distinct keys, no id is returned twice.
\<close>

theorem getCachedResults_sound:
  "set (fst (getCachedResults ids dt elevation s)) =
     row_result ` {r \<in> set (results s). id_col r \<in> set ids \<and> date_col r = toISODate dt
                    \<and> elevation_col r = elevation}
   \<and> find (\<lambda>x. res_id x = i)
        (fst (getCachedResults ids dt elevation (cacheResults rs dt elevation s))) =
      (if i \<in> set ids then
         (case find (\<lambda>r. pk r = (i, toISODate dt, elevation)) (results s) of
            Some r \<Rightarrow> Some (row_result r)
          | None \<Rightarrow> find (\<lambda>x. res_id x = i) rs)
       else None)
   \<and> (distinct ids \<and> distinct (map pk (results s)) \<longrightarrow>
        distinct (map res_id (fst (getCachedResults ids dt elevation s))))"
proof (intro conjI impI)
  show "set (fst (getCachedResults ids dt elevation s)) =
     row_result ` {r \<in> set (results s). id_col r \<in> set ids \<and> date_col r = toISODate dt
                    \<and> elevation_col r = elevation}"
    by (simp add: fst_getCachedResults set_loop)
next
  show "find (\<lambda>x. res_id x = i)
        (fst (getCachedResults ids dt elevation (cacheResults rs dt elevation s))) =
      (if i \<in> set ids then
         (case find (\<lambda>r. pk r = (i, toISODate dt, elevation)) (results s) of
            Some r \<Rightarrow> Some (row_result r)
          | None \<Rightarrow> find (\<lambda>x. res_id x = i) rs)
       else None)"
    by (rule find_lookup_after_insert)
next
  assume "distinct ids \<and> distinct (map pk (results s))"
  then show "distinct (map res_id (fst (getCachedResults ids dt elevation s)))"
    by (simp add: distinct_getCachedResults)
qed

theorem getCachedResults_sound_witness:
  "find (\<lambda>x. res_id x = ''81007ffffffffff'')
        (fst (getCachedResults [''81003ffffffffff'', ''81007ffffffffff'', ''8100bffffffffff'']
                1771286400000 100 (cacheResults [res_A] 1771286400000 100 db_C))) = Some res_A
   \<and> find (\<lambda>x. res_id x = ''81003ffffffffff'')
        (fst (getCachedResults [''81003ffffffffff'', ''81007ffffffffff'', ''8100bffffffffff'']
                1771286400000 100 (cacheResults [res_A] 1771286400000 100 db_C)))
       = Some (row_result row_C)
   \<and> find (\<lambda>x. res_id x = ''8100bffffffffff'')
        (fst (getCachedResults [''81003ffffffffff'', ''81007ffffffffff'', ''8100bffffffffff'']
                1771286400000 100 (cacheResults [res_A] 1771286400000 100 db_C))) = None
   \<and> distinct [''81003ffffffffff'', ''81007ffffffffff'', ''8100bffffffffff'']
   \<and> distinct (map pk (results db_C))
   \<and> distinct (map res_id
        (fst (getCachedResults [''81003ffffffffff'', ''81007ffffffffff'', ''8100bffffffffff'']
                1771286400000 100 db_C)))"
proof -
  let ?ids = "[''81003ffffffffff'', ''81007ffffffffff'', ''8100bffffffffff'']"
  have d1: "distinct ?ids"
    by simp
  have d2: "distinct (map pk (results db_C))"
    by (simp add: db_C_def)
  have "distinct (map res_id (fst (getCachedResults ?ids 1771286400000 100 db_C)))"
    using d1 d2
      getCachedResults_sound [where ids = ?ids and s = db_C and dt = 1771286400000
        and elevation = 100]
    by blast
  then show ?thesis
    using d1 d2
      getCachedResults_sound [where i = "''81007ffffffffff''" and rs = "[res_A]" and s = db_C
        and dt = 1771286400000 and elevation = 100 and ids = ?ids]
      getCachedResults_sound [where i = "''81003ffffffffff''" and rs = "[res_A]" and s = db_C
        and dt = 1771286400000 and elevation = 100 and ids = ?ids]
      getCachedResults_sound [where i = "''8100bffffffffff''" and rs = "[res_A]" and s = db_C
        and dt = 1771286400000 and elevation = 100 and ids = ?ids]
    by (simp add: db_C_def row_C_def res_A_def pk_def toISODate_def)
qed

text \<open>
  Claim C7, as stated, fails: 100.2 and 100.4 round to the same integer, yet a result
  cached under elevation 100.2 is found under 100.2 and not under 100.4.
\<close>

theorem elevation_rounding_counterexample:
  "round (100.2 :: real) = round (100.4 :: real)
   \<and> fst (getCachedResults [''81007ffffffffff''] 1771286400000 100.2
            (cacheResults [res_A] 1771286400000 100.2 fresh_db)) = [res_A]
   \<and> fst (getCachedResults [''81007ffffffffff''] 1771286400000 100.4
            (cacheResults [res_A] 1771286400000 100.2 fresh_db)) = []"
proof (intro conjI)
  show "round (100.2 :: real) = round (100.4 :: real)"
    by (simp add: round_def)
  show "fst (getCachedResults [''81007ffffffffff''] 1771286400000 100.2
            (cacheResults [res_A] 1771286400000 100.2 fresh_db)) = [res_A]"
    by (simp add: fst_getCachedResults results_cacheResults loop_single values_rows_def
        select_results_def row_result_def res_A_def fresh_db_def pk_def)
  show "fst (getCachedResults [''81007ffffffffff''] 1771286400000 100.4
            (cacheResults [res_A] 1771286400000 100.2 fresh_db)) = []"
    by (simp add: fst_getCachedResults results_cacheResults loop_single values_rows_def
        select_results_def row_result_def res_A_def fresh_db_def pk_def)
qed

text \<open>
  Claim C7, amended. The elevation of the key is the number as passed, stored in a
  \<^verbatim>\<open>DOUBLE\<close> column and compared by equality: an insert under one elevation changes
  no lookup under any other elevation, however close.
\<close>

theorem cache_key_elevation_exact:
  "elevation' \<noteq> elevation \<Longrightarrow>
   fst (getCachedResults ids dt elevation' (cacheResults rs dt elevation s)) =
   fst (getCachedResults ids dt elevation' s)"
proof -
  assume ne: "elevation' \<noteq> elevation"
  have "select_results (insert_or_ignore (results s) (values_rows rs (toISODate dt) elevation))
          c (toISODate dt) elevation' =
        select_results (results s) c (toISODate dt) elevation'" for c
    unfolding select_results_def
    by (rule filter_insert_or_ignore_other) (use ne in \<open>auto simp: values_rows_def\<close>)
  then have "getCachedResults_loop
               (insert_or_ignore (results s) (values_rows rs (toISODate dt) elevation))
               ids (toISODate dt) elevation' 0 [] =
             getCachedResults_loop (results s) ids (toISODate dt) elevation' 0 []"
    by (rule loop_cong)
  then show ?thesis
    by (simp only: fst_getCachedResults results_cacheResults)
qed

theorem cache_key_elevation_exact_witness:
  "(100.4 :: real) \<noteq> 100.2 \<and>
   fst (getCachedResults [''81007ffffffffff''] 1771286400000 100.4
          (cacheResults [res_A] 1771286400000 100.2 fresh_db)) =
   fst (getCachedResults [''81007ffffffffff''] 1771286400000 100.4 fresh_db)"
proof -
  have h: "(100.4 :: real) \<noteq> 100.2" by simp
  show ?thesis
    using h cache_key_elevation_exact
              [OF h, of "[''81007ffffffffff'']" 1771286400000 "[res_A]" fresh_db]
    by blast
qed


section \<open>Properties of the visibility evaluator\<close>

subsection \<open>The evaluation after both events are found\<close>

text \<open>
  Whatever the lag time and the new moons are, the code and the value returned are the
  pair the geometric step computes: the last assignment to \<^verbatim>\<open>details.qcode\<close> is the one
  of line 161.
\<close>

lemma calculate_found_result:
  assumes "SearchMoonPhase A 0 (JSDate s) (-35) = Some p"
      and "SearchMoonPhase A 0 (JSDate s) 35 = Some n"
  shows "\<exists>d ARCV WTopo. calculate_found A obs ev y s m details = Inr d
           \<and> d ''qcode'' = Some (Str (snd (geometric y ARCV WTopo)))
           \<and> d ''value'' = Some (Number (fst (geometric y ARCV WTopo)))
           \<and> d ''lagTime'' = Some (Number (Num ((m - s) * (if ev then 1 else -1))))"
  using assms
  apply (simp add: calculate_found_def Let_def)
  apply blast
  done

lemma geometric_ladder:
  "snd (geometric y ARCV WTopo) =
     (if y then spec_yallop_ladder (fst (geometric y ARCV WTopo))
      else spec_alternate_ladder (fst (geometric y ARCV WTopo)))"
  by (simp add: geometric_def spec_yallop_ladder_def spec_alternate_ladder_def Let_def)

lemma spec_yallop_ladder_letters:
  "spec_yallop_ladder v \<in> {''A'', ''B'', ''C'', ''D'', ''E'', ''F''}"
  by (simp add: spec_yallop_ladder_def)

lemma spec_alternate_ladder_letters:
  "spec_alternate_ladder v \<in> {''A'', ''C'', ''E'', ''F''}"
  by (simp add: spec_alternate_ladder_def)

lemma calculate_events_found:
  assumes "searches A lat lng alt baseTime opts = Inr (obs, ev, y, Some s, Some m)"
  shows "calculate A lat lng alt baseTime opts = calculate_found A obs ev y s m Map.empty"
  using assms by (simp add: calculate_def)

lemma calculate_null_event:
  assumes "searches A lat lng alt baseTime opts = Inr (obs, ev, y, sun, moon)"
      and "sun = None \<or> moon = None"
  shows "calculate A lat lng alt baseTime opts = Inr [''qcode'' \<mapsto> Str ''H'']"
  using assms by (auto simp: calculate_def Let_def split: option.splits)

lemma calculate_returns_ladder:
  assumes "searches A lat lng alt baseTime opts = Inr (obs, ev, y, Some s, Some m)"
      and "SearchMoonPhase A 0 (JSDate s) (-35) = Some p"
      and "SearchMoonPhase A 0 (JSDate s) 35 = Some n"
  shows "\<exists>d v. calculate A lat lng alt baseTime opts = Inr d
           \<and> d ''value'' = Some (Number v)
           \<and> d ''qcode'' =
               Some (Str (if y then spec_yallop_ladder v else spec_alternate_ladder v))
           \<and> d ''lagTime'' = Some (Number (Num ((m - s) * (if ev then 1 else -1))))"
proof -
  obtain d ARCV WTopo where d:
    "calculate_found A obs ev y s m Map.empty = Inr d"
    "d ''qcode'' = Some (Str (snd (geometric y ARCV WTopo)))"
    "d ''value'' = Some (Number (fst (geometric y ARCV WTopo)))"
    "d ''lagTime'' = Some (Number (Num ((m - s) * (if ev then 1 else -1))))"
    using calculate_found_result [OF assms(2,3)] by blast
  have "calculate A lat lng alt baseTime opts = Inr d"
    using d(1) calculate_events_found [OF assms(1)] by simp
  moreover have "d ''qcode'' =
      Some (Str (if y then spec_yallop_ladder (fst (geometric y ARCV WTopo))
                 else spec_alternate_ladder (fst (geometric y ARCV WTopo))))"
    using d(2) geometric_ladder [of y ARCV WTopo] by simp
  ultimately show ?thesis
    using d(3,4) by blast
qed

lemma geometric_letters:
  "snd (geometric y ARCV WTopo) \<in> {''A'', ''B'', ''C'', ''D'', ''E'', ''F''}"
  using spec_yallop_ladder_letters [of "fst (geometric y ARCV WTopo)"]
    spec_alternate_ladder_letters [of "fst (geometric y ARCV WTopo)"]
  by (cases y) (auto simp: geometric_ladder)

text \<open>
  The new moons are kept as \<^verbatim>\<open>Date\<close> objects, so the differences with their
  \<^verbatim>\<open>ut\<close> are \<^verbatim>\<open>NaN\<close>: the test \<^verbatim>\<open>beforeNewMoon\<close> of line 102 is false for every
  sunset \<open>s\<close> and new moon \<open>x\<close>.
\<close>

lemma beforeNewMoon_false:
  "\<not> ((ut_of (AstroTime s) - ut_of (date_of (AstroTime x))) * Num c < Num 0)"
  by simp

text \<open>
  \<^verbatim>\<open>calculate\<close> throws, or returns H, or returns a geometric letter: for no library and
  no input does it return G, I or J.
\<close>

lemma calculate_found_cases:
  "calculate_found A obs ev y s m details = Inl TypeError
   \<or> (\<exists>d ARCV WTopo. calculate_found A obs ev y s m details = Inr d
         \<and> d ''qcode'' = Some (Str (snd (geometric y ARCV WTopo))))"
proof (cases "SearchMoonPhase A 0 (JSDate s) (-35)")
  case None
  then show ?thesis
    by (simp add: calculate_found_def Let_def)
next
  case prev: (Some p)
  show ?thesis
  proof (cases "SearchMoonPhase A 0 (JSDate s) 35")
    case None
    then show ?thesis
      using prev by (simp add: calculate_found_def Let_def)
  next
    case (Some n)
    then show ?thesis
      using calculate_found_result [OF prev Some, of obs ev y m details] by blast
  qed
qed

lemma calculate_never_G_I_J:
  "returned_qcode (calculate A lat lng alt baseTime opts)
     \<notin> {Some (Str ''G''), Some (Str ''I''), Some (Str ''J'')}"
proof (cases "searches A lat lng alt baseTime opts")
  case (Inl err)
  then show ?thesis
    by (simp add: returned_qcode_def calculate_def)
next
  case (Inr r)
  obtain obs ev y sun moon where r: "r = (obs, ev, y, sun, moon)"
    by (cases r) auto
  show ?thesis
  proof (cases "sun = None \<or> moon = None")
    case True
    then show ?thesis
      using calculate_null_event [of A lat lng alt baseTime opts obs ev y sun moon] Inr r
      by (simp add: returned_qcode_def)
  next
    case False
    then obtain s m where sm: "sun = Some s" "moon = Some m"
      by auto
    have eq: "calculate A lat lng alt baseTime opts = calculate_found A obs ev y s m Map.empty"
      using Inr r sm by (simp add: calculate_events_found)
    show ?thesis
    proof (cases "calculate_found A obs ev y s m Map.empty")
      case (Inl err)
      then show ?thesis
        by (simp add: eq returned_qcode_def)
    next
      case (Inr d)
      then obtain ARCV WTopo where "d ''qcode'' = Some (Str (snd (geometric y ARCV WTopo)))"
        using calculate_found_cases [of A obs ev y s m Map.empty] by auto
      then show ?thesis
        using geometric_letters [of y ARCV WTopo] Inr
        by (auto simp: eq returned_qcode_def)
    qed
  qed
qed


subsection \<open>The sample ephemeris\<close>


lemma searches_sample_equator_6_April:
  "searches sample_ephemeris 0 0 (Some 0) (Num 8862) yallop_options =
     Inr (\<lparr>latitude = 0, longitude = 0, height = 0\<rparr>, True, True, Some 8862.25, Some 8862.15)"
  by (simp add: searches_def sample_ephemeris_def yallop_options_def)

lemma searches_sample_south_9_April:
  "searches sample_ephemeris (-60) 0 (Some 0) (Num 8865) yallop_options =
     Inr (\<lparr>latitude = -60, longitude = 0, height = 0\<rparr>, True, True,
          Some 8865.215, Some 8865.205)"
  by (simp add: searches_def sample_ephemeris_def yallop_options_def)

lemma searches_sample_polar:
  "searches sample_ephemeris 85 0 (Some 0) (Num 8865) yallop_options =
     Inr (\<lparr>latitude = 85, longitude = 0, height = 0\<rparr>, True, True, Some 8865.75, None)"
  by (simp add: searches_def sample_ephemeris_def yallop_options_def)

lemma moon_phase_sample:
  "SearchMoonPhase sample_ephemeris 0 (JSDate 8865.25) (-35) = Some 8864.2646"
  "SearchMoonPhase sample_ephemeris 0 (JSDate 8865.25) 35 = Some 8893.64"
  "SearchMoonPhase sample_ephemeris 0 (JSDate 8862.25) (-35) = Some 8834.875"
  "SearchMoonPhase sample_ephemeris 0 (JSDate 8862.25) 35 = Some 8864.2646"
  "SearchMoonPhase sample_ephemeris 0 (JSDate 8865.215) (-35) = Some 8864.2646"
  "SearchMoonPhase sample_ephemeris 0 (JSDate 8865.215) 35 = Some 8893.64"
  by (simp_all add: sample_ephemeris_def)

text \<open>The crescent width and the letter at the two evenings with a negative lag time.\<close>

lemma one_minus_cos_le: "1 - cos (x::real) \<le> x\<^sup>2 / 2"
proof -
  have "cos x = 1 - 2 * (sin (x / 2))\<^sup>2"
    using cos_double_sin [of "x / 2"] by simp
  moreover have "(sin (x / 2))\<^sup>2 \<le> (x / 2)\<^sup>2"
    using abs_sin_x_le_abs_x [of "x / 2"] by (metis abs_le_square_iff)
  ultimately show ?thesis
    by (simp add: power2_eq_square)
qed

lemma crescent_width_bounds:
  fixes S :: real
  assumes "0 \<le> S"
  shows "0 \<le> S * (1 + sin a * sin b) * (1 - cos c)"
    and "S * (1 + sin a * sin b) * (1 - cos c) \<le> S * c\<^sup>2"
proof -
  have "\<bar>sin a * sin b\<bar> \<le> 1"
    by (simp add: abs_mult mult_le_one)
  then have f: "0 \<le> 1 + sin a * sin b" "1 + sin a * sin b \<le> 2"
    by linarith+
  have g: "0 \<le> 1 - cos c" "1 - cos c \<le> c\<^sup>2 / 2"
    using one_minus_cos_le [of c] by simp_all
  show "0 \<le> S * (1 + sin a * sin b) * (1 - cos c)"
    using assms f(1) g(1) by simp
  have "(1 + sin a * sin b) * (1 - cos c) \<le> 2 * (c\<^sup>2 / 2)"
    using f g by (intro mult_mono) simp_all
  then have "S * ((1 + sin a * sin b) * (1 - cos c)) \<le> S * (2 * (c\<^sup>2 / 2))"
    using assms by (rule mult_left_mono)
  then show "S * (1 + sin a * sin b) * (1 - cos c) \<le> S * c\<^sup>2"
    by (simp add: mult.assoc)
qed

lemma geometric_yallop_F:
  assumes "0 \<le> W" and "W \<le> 3" and "ARCV \<le> -13"
  shows "snd (geometric True (Num ARCV) (Num W)) = ''F''"
proof -
  define P where "P = 11.8371 - 6.3226 * W + 0.7319 * W ^ 2 - 0.1018 * W ^ 3"
  have w3: "W ^ 3 \<le> 27"
    using power_mono [OF assms(2,1), of 3] by simp
  have w2: "0 \<le> W\<^sup>2"
    by simp
  have "P = 118371 / 10000 - 31613 * W / 5000 + 7319 * W\<^sup>2 / 10000 - 509 * W ^ 3 / 5000"
    by (simp add: P_def)
  then have "- 10 \<le> P"
    using assms(2) w3 w2 by linarith
  then have "(ARCV - P) / 10 \<le> - 0.3"
    using assms(3) by simp
  then have "\<not> (ARCV - P) / 10 > - 0.293"
    by simp
  then show ?thesis
    unfolding P_def by (simp add: geometric_def Let_def)
qed

lemma geometric_yallop_F_thin:
  assumes "0 \<le> W" and "W \<le> 1" and "ARCV \<le> 2"
  shows "snd (geometric True (Num ARCV) (Num W)) = ''F''"
proof -
  define P where "P = 11.8371 - 6.3226 * W + 0.7319 * W ^ 2 - 0.1018 * W ^ 3"
  have w3: "W ^ 3 \<le> 1"
    using power_mono [OF assms(2,1), of 3] by simp
  have w2: "0 \<le> W\<^sup>2"
    by simp
  have "P = 118371 / 10000 - 31613 * W / 5000 + 7319 * W\<^sup>2 / 10000 - 509 * W ^ 3 / 5000"
    by (simp add: P_def)
  then have "5 \<le> P"
    using assms(2) w3 w2 by linarith
  then have "(ARCV - P) / 10 \<le> - 0.3"
    using assms(3) by simp
  then have "\<not> (ARCV - P) / 10 > - 0.293"
    by simp
  then show ?thesis
    unfolding P_def by (simp add: geometric_def Let_def)
qed

lemma sample_qcode_6_April:
  "returned_qcode (calculate sample_ephemeris 0 0 (Some 0) (Num 8862) yallop_options) =
     Some (Str ''F'')"
proof -
  let ?W = "15.6 * (1 + sin (-35.2 * DEG2RAD) * sin ((15.6 / 0.27245 / 60) * DEG2RAD))
               * (1 - cos (25 * DEG2RAD))"
  have "returned_qcode (calculate sample_ephemeris 0 0 (Some 0) (Num 8862) yallop_options) =
     Some (Str (snd (geometric True (Num (-35.2 - (-0.8))) (Num ?W))))"
    by (simp add: returned_qcode_def calculate_def searches_def calculate_found_def Let_def
        sample_ephemeris_def yallop_options_def)
  moreover have "0 \<le> ?W"
    by (rule crescent_width_bounds(1)) simp
  moreover have "?W \<le> 15.6 * (25 * DEG2RAD)\<^sup>2"
    by (rule crescent_width_bounds(2)) simp
  moreover have "15.6 * (25 * DEG2RAD)\<^sup>2 \<le> 3"
    by (simp add: DEG2RAD_def power2_eq_square)
  ultimately show ?thesis
    using geometric_yallop_F [of ?W "-35.2 - (-0.8)"] by simp
qed

lemma sample_qcode_south:
  "returned_qcode (calculate sample_ephemeris (-60) 0 (Some 0) (Num 8865) yallop_options) =
     Some (Str ''F'')"
proof -
  let ?W = "15.6 * (1 + sin (-2.9 * DEG2RAD) * sin ((15.6 / 0.27245 / 60) * DEG2RAD))
               * (1 - cos (13 * DEG2RAD))"
  have "returned_qcode (calculate sample_ephemeris (-60) 0 (Some 0) (Num 8865) yallop_options) =
     Some (Str (snd (geometric True (Num (-2.9 - (-0.8))) (Num ?W))))"
    by (simp add: returned_qcode_def calculate_def searches_def calculate_found_def Let_def
        sample_ephemeris_def yallop_options_def)
  moreover have "0 \<le> ?W"
    by (rule crescent_width_bounds(1)) simp
  moreover have "?W \<le> 15.6 * (13 * DEG2RAD)\<^sup>2"
    by (rule crescent_width_bounds(2)) simp
  moreover have "15.6 * (13 * DEG2RAD)\<^sup>2 \<le> 1"
    by (simp add: DEG2RAD_def power2_eq_square)
  ultimately show ?thesis
    using geometric_yallop_F_thin [of ?W "-2.9 - (-0.8)"] by simp
qed


subsection \<open>The claims about calculate\<close>

text \<open>
  Claim C1, at an input that shows the defect. On the evening of 9 April at 60 degrees
  south the sample ephemeris has the Moon set before the Sun (the lag time is negative),
  a day after the new moon, so the code of the claim is I. \<^verbatim>\<open>calculate\<close> returns F,
  the geometric letter: line 161 assigns it after lines 103 to 105 have assigned the
  codes J, I and G.
\<close>

theorem calculate_negative_lag_returns_geometric_letter:
  "returned_lagTime (calculate sample_ephemeris (-60) 0 (Some 0) (Num 8865) yallop_options)
     = Some (Number (Num (-0.01)))
   \<and> SearchMoonPhase sample_ephemeris 0 (JSDate 8865.215) (-35) = Some 8864.2646
   \<and> returned_qcode (calculate sample_ephemeris (-60) 0 (Some 0) (Num 8865) yallop_options)
     = Some (Str ''F'')"
proof -
  obtain d where d:
    "calculate sample_ephemeris (-60) 0 (Some 0) (Num 8865) yallop_options = Inr d"
    "d ''lagTime'' = Some (Number (Num ((8865.205 - 8865.215) * 1)))"
    using calculate_returns_ladder
            [OF searches_sample_south_9_April moon_phase_sample(5) moon_phase_sample(6)]
    by auto
  then show ?thesis
    using sample_qcode_south moon_phase_sample(5) by (simp add: returned_lagTime_def)
qed

text \<open>
  Claim C2, at an input that shows the defect. On the evening of 6 April at the equator
  the sample ephemeris has the Moon set before the Sun (the lag time is negative) and
  the sunset is two days before the nearest new moon, so the code of the claim is J.
  \<^verbatim>\<open>calculate\<close> returns F, the geometric letter.
\<close>

theorem calculate_both_conditions_returns_geometric_letter:
  "returned_lagTime (calculate sample_ephemeris 0 0 (Some 0) (Num 8862) yallop_options)
     = Some (Number (Num (-0.1)))
   \<and> SearchMoonPhase sample_ephemeris 0 (JSDate 8862.25) (-35) = Some 8834.875
   \<and> SearchMoonPhase sample_ephemeris 0 (JSDate 8862.25) 35 = Some 8864.2646
   \<and> returned_qcode (calculate sample_ephemeris 0 0 (Some 0) (Num 8862) yallop_options)
     = Some (Str ''F'')"
proof -
  obtain d where d:
    "calculate sample_ephemeris 0 0 (Some 0) (Num 8862) yallop_options = Inr d"
    "d ''lagTime'' = Some (Number (Num ((8862.15 - 8862.25) * 1)))"
    using calculate_returns_ladder
            [OF searches_sample_equator_6_April moon_phase_sample(3) moon_phase_sample(4)]
    by auto
  then show ?thesis
    using sample_qcode_6_April moon_phase_sample(3) moon_phase_sample(4)
    by (simp add: returned_lagTime_def)
qed



text \<open>
  Claim C6. When the searches have run and either of them found no event, \<^verbatim>\<open>calculate\<close>
  returns normally, and the code of the result is H.
\<close>

theorem calculate_no_event_code_H:
  assumes "searches A lat lng alt baseTime opts = Inr (obs, ev, y, sun, moon)"
      and "sun = None \<or> moon = None"
  shows "\<exists>d. calculate A lat lng alt baseTime opts = Inr d \<and> d ''qcode'' = Some (Str ''H'')"
  using calculate_null_event [OF assms] by simp

theorem calculate_no_event_code_H_witness:
  "searches sample_ephemeris 85 0 (Some 0) (Num 8865) yallop_options =
     Inr (\<lparr>latitude = 85, longitude = 0, height = 0\<rparr>, True, True, Some 8865.75, None)
   \<and> (\<exists>d. calculate sample_ephemeris 85 0 (Some 0) (Num 8865) yallop_options = Inr d
          \<and> d ''qcode'' = Some (Str ''H''))"
proof -
  have h: "searches sample_ephemeris 85 0 (Some 0) (Num 8865) yallop_options =
     Inr (\<lparr>latitude = 85, longitude = 0, height = 0\<rparr>, True, True, Some 8865.75, None)"
    by (simp add: searches_def sample_ephemeris_def yallop_options_def)
  show ?thesis
    using h calculate_no_event_code_H [OF h] by simp
qed

text \<open>
  Claim C10. When the searches have run and either of them found no event, the object
  \<^verbatim>\<open>calculate\<close> returns has the one property \<^verbatim>\<open>qcode\<close>: the lag time, the two event
  dates, the best time, the arcs, the width, the altitudes and the value are all absent.
\<close>

theorem calculate_no_event_only_qcode:
  assumes "searches A lat lng alt baseTime opts = Inr (obs, ev, y, sun, moon)"
      and "sun = None \<or> moon = None"
  shows "\<exists>d. calculate A lat lng alt baseTime opts = Inr d
           \<and> dom d = {''qcode''}
           \<and> d ''lagTime'' = None \<and> d ''sunsetSunrise'' = None
           \<and> d ''moonsetMoonrise'' = None \<and> d ''bestTime'' = None
           \<and> d ''arcl'' = None \<and> d ''arcv'' = None \<and> d ''daz'' = None
           \<and> d ''wTopo'' = None \<and> d ''moonAltitude'' = None \<and> d ''sunAltitude'' = None
           \<and> d ''value'' = None"
  using calculate_null_event [OF assms] by simp

theorem calculate_no_event_only_qcode_witness:
  "searches sample_ephemeris 85 0 (Some 0) (Num 8865) yallop_options =
     Inr (\<lparr>latitude = 85, longitude = 0, height = 0\<rparr>, True, True, Some 8865.75, None)
   \<and> (\<exists>d. calculate sample_ephemeris 85 0 (Some 0) (Num 8865) yallop_options = Inr d
          \<and> dom d = {''qcode''} \<and> d ''lagTime'' = None \<and> d ''value'' = None)"
proof -
  have h: "searches sample_ephemeris 85 0 (Some 0) (Num 8865) yallop_options =
     Inr (\<lparr>latitude = 85, longitude = 0, height = 0\<rparr>, True, True, Some 8865.75, None)"
    by (simp add: searches_def sample_ephemeris_def yallop_options_def)
  show ?thesis
    using h calculate_no_event_only_qcode [OF h] by auto
qed


section \<open>Properties of the batch worker\<close>











section \<open>Properties of the polygon construction\<close>

lemma crosses_loop_iff:
  "crosses_loop lngs i =
     (\<exists>j. i \<le> j \<and> j < length lngs
          \<and> \<bar>lngs ! j - lngs ! ((j + 1) mod length lngs)\<bar> > 180)"
proof (induction lngs i rule: crosses_loop.induct)
  case (1 lngs i)
  show ?case
  proof (cases "i < length lngs")
    case False
    then show ?thesis
      by (subst crosses_loop.simps) auto
  next
    case True
    show ?thesis
    proof (cases "\<bar>lngs ! i - lngs ! ((i + 1) mod length lngs)\<bar> > 180")
      case far: True
      then show ?thesis
        using True by (subst crosses_loop.simps) (auto simp: Let_def)
    next
      case near: False
      have "crosses_loop lngs i = crosses_loop lngs (i + 1)"
        using True near by (subst crosses_loop.simps) (simp add: Let_def)
      also have "\<dots> = (\<exists>j. i + 1 \<le> j \<and> j < length lngs
          \<and> \<bar>lngs ! j - lngs ! ((j + 1) mod length lngs)\<bar> > 180)"
        using "1.IH" [OF True refl] near by simp
      also have "\<dots> = (\<exists>j. i \<le> j \<and> j < length lngs
          \<and> \<bar>lngs ! j - lngs ! ((j + 1) mod length lngs)\<bar> > 180)"
      proof
        assume "\<exists>j. i + 1 \<le> j \<and> j < length lngs
          \<and> \<bar>lngs ! j - lngs ! ((j + 1) mod length lngs)\<bar> > 180"
        then obtain j where "i + 1 \<le> j" "j < length lngs"
          "\<bar>lngs ! j - lngs ! ((j + 1) mod length lngs)\<bar> > 180"
          by blast
        then show "\<exists>j. i \<le> j \<and> j < length lngs
          \<and> \<bar>lngs ! j - lngs ! ((j + 1) mod length lngs)\<bar> > 180"
          by (intro exI [of _ j]) simp
      next
        assume "\<exists>j. i \<le> j \<and> j < length lngs
          \<and> \<bar>lngs ! j - lngs ! ((j + 1) mod length lngs)\<bar> > 180"
        then obtain j where j: "i \<le> j" "j < length lngs"
          "\<bar>lngs ! j - lngs ! ((j + 1) mod length lngs)\<bar> > 180"
          by blast
        have "j \<noteq> i"
          using j(3) near by auto
        then have "i + 1 \<le> j"
          using j(1) by simp
        then show "\<exists>j. i + 1 \<le> j \<and> j < length lngs
          \<and> \<bar>lngs ! j - lngs ! ((j + 1) mod length lngs)\<bar> > 180"
          using j(2,3) by blast
      qed
      finally show ?thesis .
    qed
  qed
qed

lemma crosses_loop_wrap_detected: "crosses_loop lngs 0 = wrap_detected lngs"
  by (auto simp: crosses_loop_iff wrap_detected_def list_ex_iff)

lemma push_first_closed_ring: "ps \<noteq> [] \<Longrightarrow> push_first ps = closed_ring ps"
  by (cases ps) (simp_all add: push_first_def closed_ring_def)

lemma ring_lngs_map:
  "ring_lngs (map (\<lambda>b. Position (f b) (g b)) bs) = map f bs"
  by (induction bs) simp_all

lemma ring_lngs_append: "ring_lngs (ps @ qs) = ring_lngs ps @ ring_lngs qs"
  by (induction ps rule: ring_lngs.induct) simp_all

lemma ring_lngs_closed_map:
  "bs \<noteq> [] \<Longrightarrow>
   set (ring_lngs (closed_ring (map (\<lambda>b. Position (f b) (g b)) bs))) = f ` set bs"
  by (cases bs) (auto simp: closed_ring_def ring_lngs_append ring_lngs_map)

lemma spans_at_most_iff:
  "spans_at_most d xs = (\<forall>x \<in> set xs. \<forall>y \<in> set xs. \<bar>x - y\<bar> \<le> d)"
  by (simp add: spans_at_most_def list_all_iff)

lemma geometry_no_wrap:
  assumes "cellToBoundary h3Id \<noteq> []"
      and "\<not> wrap_detected (map snd (cellToBoundary h3Id))"
  shows "getAntimeridianSafeFeature cellToBoundary h3Id color =
           \<lparr>properties_color = color, geometry = Polygon [spec_single (cellToBoundary h3Id)]\<rparr>"
  using assms
  by (simp add: getAntimeridianSafeFeature_def Let_def crosses_loop_wrap_detected
        push_first_closed_ring spec_single_def case_prod_unfold)

lemma geometry_wrap:
  assumes "cellToBoundary h3Id \<noteq> []"
      and "wrap_detected (map snd (cellToBoundary h3Id))"
  shows "getAntimeridianSafeFeature cellToBoundary h3Id color =
           \<lparr>properties_color = color,
            geometry = MultiPolygon [[spec_left (cellToBoundary h3Id)],
                                     [spec_right (cellToBoundary h3Id)]]\<rparr>"
  using assms
  by (simp add: getAntimeridianSafeFeature_def Let_def crosses_loop_wrap_detected
        push_first_closed_ring spec_left_def spec_right_def case_prod_unfold)

lemma spec_left_span:
  assumes "boundary \<noteq> []"
      and "list_all (\<lambda>b. 90 \<le> \<bar>snd b\<bar> \<and> \<bar>snd b\<bar> \<le> 180) boundary"
  shows "spans_at_most 180 (ring_lngs (spec_left boundary))"
proof -
  have bounds: "\<forall>x \<in> set (ring_lngs (spec_left boundary)). 90 \<le> x \<and> x \<le> 270"
    using assms
    by (auto simp: spec_left_def case_prod_unfold ring_lngs_closed_map list_all_iff)
  then have "\<bar>x - y\<bar> \<le> 180"
    if "x \<in> set (ring_lngs (spec_left boundary))" "y \<in> set (ring_lngs (spec_left boundary))" for x y
  proof -
    have "90 \<le> x \<and> x \<le> 270" "90 \<le> y \<and> y \<le> 270"
      using that bounds by blast+
    then show ?thesis
      by linarith
  qed
  then show ?thesis
    by (simp add: spans_at_most_iff)
qed

lemma spec_right_span:
  assumes "boundary \<noteq> []"
      and "list_all (\<lambda>b. 90 \<le> \<bar>snd b\<bar> \<and> \<bar>snd b\<bar> \<le> 180) boundary"
  shows "spans_at_most 180 (ring_lngs (spec_right boundary))"
proof -
  have bounds: "\<forall>x \<in> set (ring_lngs (spec_right boundary)). -270 \<le> x \<and> x \<le> -90"
    using assms
    by (auto simp: spec_right_def case_prod_unfold ring_lngs_closed_map list_all_iff)
  then have "\<bar>x - y\<bar> \<le> 180"
    if "x \<in> set (ring_lngs (spec_right boundary))" "y \<in> set (ring_lngs (spec_right boundary))" for x y
  proof -
    have "-270 \<le> x \<and> x \<le> -90" "-270 \<le> y \<and> y \<le> -90"
      using that bounds by blast+
    then show ?thesis
      by linarith
  qed
  then show ?thesis
    by (simp add: spans_at_most_iff)
qed

lemma spec_single_span:
  assumes "boundary \<noteq> []"
  shows "spans_at_most d (ring_lngs (spec_single boundary)) = spans_at_most d (map snd boundary)"
  using assms
  by (simp add: spans_at_most_iff spec_single_def case_prod_unfold ring_lngs_closed_map)


lemma wrap_sample_pole: "wrap_detected (map snd (sample_boundary ''pole''))"
  by (simp add: wrap_detected_def sample_boundary_def)

lemma wrap_sample_antimeridian: "wrap_detected (map snd (sample_boundary ''antimeridian''))"
  by (simp add: wrap_detected_def sample_boundary_def)

lemma no_wrap_sample_plain: "\<not> wrap_detected (map snd (sample_boundary ''plain''))"
  by (simp add: wrap_detected_def sample_boundary_def)

text \<open>
  Claim C9, as stated, fails: for the sample cell around the pole a wrap is detected and
  the geometry has two parts, but the left part runs from longitude 30 to longitude 330.
\<close>

theorem polar_cell_span_counterexample:
  "getAntimeridianSafeFeature sample_boundary ''pole'' ''#22c55e'' =
     \<lparr>properties_color = ''#22c55e'',
      geometry = MultiPolygon
        [[[Position 210 89, Position 270 89, Position 330 89, Position 30 89, Position 90 89,
           Position 150 89, Position 210 89]],
         [[Position (-150) 89, Position (-90) 89, Position (-30) 89, Position (-330) 89,
           Position (-270) 89, Position (-210) 89, Position (-150) 89]]]\<rparr>
   \<and> \<not> spans_at_most 180
          (ring_lngs [Position 210 89, Position 270 89, Position 330 89, Position 30 89,
                      Position 90 89, Position 150 89, Position 210 89])"
proof
  show "getAntimeridianSafeFeature sample_boundary ''pole'' ''#22c55e'' =
     \<lparr>properties_color = ''#22c55e'',
      geometry = MultiPolygon
        [[[Position 210 89, Position 270 89, Position 330 89, Position 30 89, Position 90 89,
           Position 150 89, Position 210 89]],
         [[Position (-150) 89, Position (-90) 89, Position (-30) 89, Position (-330) 89,
           Position (-270) 89, Position (-210) 89, Position (-150) 89]]]\<rparr>"
    using wrap_sample_pole
    by (simp add: getAntimeridianSafeFeature_def Let_def crosses_loop_wrap_detected
          push_first_def) (simp add: sample_boundary_def)
  show "\<not> spans_at_most 180
          (ring_lngs [Position 210 89, Position 270 89, Position 330 89, Position 30 89,
                      Position 90 89, Position 150 89, Position 210 89])"
    by (simp add: spans_at_most_def)
qed

text \<open>
  Claim C9, amended. For a boundary with at least one vertex: when no wrap is detected
  the geometry is the single closed polygon in (lng, lat) order, which spans what the
  boundary spans; when a wrap is detected it is the multi-part geometry of the closed
  left copy and the closed right copy; and when, moreover, every boundary longitude is
  within 90 degrees of the antimeridian, neither part spans more than 180 degrees.
\<close>

theorem antimeridian_safe_feature:
  fixes cellToBoundary :: "string \<Rightarrow> (real \<times> real) list" and h3Id :: string
  defines "boundary \<equiv> cellToBoundary h3Id"
  assumes "cellToBoundary h3Id \<noteq> []"
  shows "(\<not> wrap_detected (map snd boundary) \<longrightarrow>
            getAntimeridianSafeFeature cellToBoundary h3Id color =
              \<lparr>properties_color = color, geometry = Polygon [spec_single boundary]\<rparr>
            \<and> spans_at_most d (ring_lngs (spec_single boundary)) =
              spans_at_most d (map snd boundary))
       \<and> (wrap_detected (map snd boundary) \<longrightarrow>
            getAntimeridianSafeFeature cellToBoundary h3Id color =
              \<lparr>properties_color = color,
               geometry = MultiPolygon [[spec_left boundary], [spec_right boundary]]\<rparr>)
       \<and> (wrap_detected (map snd boundary)
            \<and> list_all (\<lambda>b. 90 \<le> \<bar>snd b\<bar> \<and> \<bar>snd b\<bar> \<le> 180) boundary \<longrightarrow>
            spans_at_most 180 (ring_lngs (spec_left boundary))
            \<and> spans_at_most 180 (ring_lngs (spec_right boundary)))"
proof -
  have ne: "cellToBoundary h3Id \<noteq> []"
    using assms by simp
  show ?thesis
    unfolding boundary_def
    using ne geometry_no_wrap [of cellToBoundary h3Id color]
      geometry_wrap [of cellToBoundary h3Id color]
      spec_single_span [of "cellToBoundary h3Id" d] spec_left_span [of "cellToBoundary h3Id"]
      spec_right_span [of "cellToBoundary h3Id"]
    by blast
qed

theorem antimeridian_safe_feature_witness:
  "sample_boundary ''plain'' \<noteq> []
   \<and> \<not> wrap_detected (map snd (sample_boundary ''plain''))
   \<and> getAntimeridianSafeFeature sample_boundary ''plain'' ''#22c55e'' =
       \<lparr>properties_color = ''#22c55e'',
        geometry = Polygon [spec_single (sample_boundary ''plain'')]\<rparr>
   \<and> sample_boundary ''antimeridian'' \<noteq> []
   \<and> wrap_detected (map snd (sample_boundary ''antimeridian''))
   \<and> list_all (\<lambda>b. 90 \<le> \<bar>snd b\<bar> \<and> \<bar>snd b\<bar> \<le> 180) (sample_boundary ''antimeridian'')
   \<and> getAntimeridianSafeFeature sample_boundary ''antimeridian'' ''#22c55e'' =
       \<lparr>properties_color = ''#22c55e'',
        geometry = MultiPolygon [[spec_left (sample_boundary ''antimeridian'')],
                                 [spec_right (sample_boundary ''antimeridian'')]]\<rparr>
   \<and> spans_at_most 180 (ring_lngs (spec_left (sample_boundary ''antimeridian'')))
   \<and> spans_at_most 180 (ring_lngs (spec_right (sample_boundary ''antimeridian'')))"
proof -
  have p1: "sample_boundary ''plain'' \<noteq> []"
    by (simp add: sample_boundary_def)
  have a1: "sample_boundary ''antimeridian'' \<noteq> []"
    by (simp add: sample_boundary_def)
  have a2: "list_all (\<lambda>b. 90 \<le> \<bar>snd b\<bar> \<and> \<bar>snd b\<bar> \<le> 180) (sample_boundary ''antimeridian'')"
    by (simp add: sample_boundary_def)
  show ?thesis
    using p1 a1 a2 no_wrap_sample_plain wrap_sample_antimeridian
      antimeridian_safe_feature
        [where cellToBoundary = sample_boundary and h3Id = "''plain''"
           and color = "''#22c55e''" and d = 180]
      antimeridian_safe_feature
        [where cellToBoundary = sample_boundary and h3Id = "''antimeridian''"
           and color = "''#22c55e''" and d = 180]
    by blast
qed

end
